theory Spec2Isabelle
  imports Main "HOL-Library.Char_ord" "HOL-Library.List_Lexorder" "HOL-Library.Product_Lexorder"
begin

section \<open>The host: everything outside \<open>UserManager.sh.py\<close>\<close>

text \<open>
  The script keeps no account data of its own. It reads the account store through
  \<open>pwd.getpwnam\<close>, \<open>pwd.getpwall\<close> and \<open>win32net.NetUserGetInfo\<close>, and changes it
  only by starting \<open>sudo useradd\<close>, \<open>sudo userdel\<close>, \<open>sudo chpasswd\<close> or by calling
  \<open>win32net.NetUserAdd\<close>, \<open>NetUserDel\<close>, \<open>NetUserSetInfo\<close>. None of these is code of the
  script, so they are parameters of the model: a record \<open>'w os\<close> of functions over an
  arbitrary type \<open>'w\<close> of host states. Strings are lists of 8-bit characters, so the model
  covers names and patterns whose code points are below 256.
\<close>

record pwent =
  pw_name :: string
  pw_uid :: int
  pw_gecos :: string

text \<open>
  What a started process gives back: its return code with the text it wrote to stderr,
  or an exception of \<open>subprocess\<close> itself (the program could not be started), with the
  exception's text.
\<close>

datatype proc = Exited int string | NotStarted string

text \<open>A call into \<open>win32net\<close> returns, or raises with a message.\<close>

datatype api = Done | Raised string

text \<open>
  The dictionaries handed to \<open>NetUserAdd\<close> (six keys) and \<open>NetUserSetInfo\<close> (three keys).
  A key that a dictionary does not have is \<open>None\<close> in the outer option; \<open>'home_dir': None\<close>
  is \<open>Some None\<close>. \<open>USER_PRIV_USER\<close> is 1, \<open>UF_SCRIPT | UF_DONT_EXPIRE_PASSWD\<close> is
  \<open>0x1 | 0x10000 = 65537\<close>.
\<close>

record user_info =
  ui_name :: string
  ui_password :: string
  ui_priv :: int
  ui_home_dir :: "string option option"
  ui_comment :: "string option"
  ui_flags :: "int option"

record 'w os =
  getpwnam :: "string \<Rightarrow> 'w \<Rightarrow> bool"
  getpwall :: "'w \<Rightarrow> pwent list"
  spawn :: "string list \<Rightarrow> string \<Rightarrow> 'w \<Rightarrow> proc \<times> 'w"
  NetUserGetInfo :: "string \<Rightarrow> 'w \<Rightarrow> bool"
  NetUserAdd :: "user_info \<Rightarrow> 'w \<Rightarrow> api \<times> 'w"
  NetUserDel :: "string \<Rightarrow> 'w \<Rightarrow> api \<times> 'w"
  NetUserSetInfo :: "string \<Rightarrow> user_info \<Rightarrow> 'w \<Rightarrow> api \<times> 'w"
  getpass :: "string \<Rightarrow> string"

text \<open>
  \<open>getpwnam\<close> and \<open>NetUserGetInfo\<close> are \<open>True\<close> when the library call returns an entry and
  \<open>False\<close> when it raises; \<open>spawn argv stdin\<close> runs a program to its end; \<open>getpass\<close> maps
  a prompt to what is typed at it.
\<close>

section \<open>The state the script runs in\<close>

text \<open>
  Besides the host, the model keeps the two things the script produces: the list of the
  calls it made that can change the account store (in the order made), and the records
  it handed to \<open>logger\<close>.
\<close>

datatype call =
    Spawn "string list" string
  | WinAdd user_info
  | WinDel string
  | WinSetInfo string user_info

datatype level = INFO | WARNING | ERROR

record 'w sys =
  world :: 'w
  calls :: "call list"
  logs :: "(level \<times> string) list"

definition logger :: "level \<Rightarrow> string \<Rightarrow> 'w sys \<Rightarrow> 'w sys" where
  "logger lvl msg s = s\<lparr>logs := logs s @ [(lvl, msg)]\<rparr>"

text \<open>\<open>f"'{x}'"\<close>: the text between two apostrophes.\<close>

definition quoted :: "string \<Rightarrow> string" where
  "quoted x = [CHR 0x27] @ x @ [CHR 0x27]"

text \<open>
  \<open>subprocess.run(cmd, check=True, capture_output=True, text=True)\<close> and
  \<open>Popen(cmd, stdin=PIPE, ...).communicate(input=inp)\<close>: the program runs on the host and
  the call is recorded. \<open>run\<close> gives the process no input.
\<close>

definition subprocess_run :: "'w os \<Rightarrow> string list \<Rightarrow> 'w sys \<Rightarrow> proc \<times> 'w sys" where
  "subprocess_run B cmd s =
     (let (r, w) = spawn B cmd [] (world s)
      in (r, s\<lparr>world := w, calls := calls s @ [Spawn cmd []]\<rparr>))"

definition popen_communicate :: "'w os \<Rightarrow> string list \<Rightarrow> string \<Rightarrow> 'w sys \<Rightarrow> proc \<times> 'w sys" where
  "popen_communicate B cmd inp s =
     (let (r, w) = spawn B cmd inp (world s)
      in (r, s\<lparr>world := w, calls := calls s @ [Spawn cmd inp]\<rparr>))"

definition net_user_add :: "'w os \<Rightarrow> user_info \<Rightarrow> 'w sys \<Rightarrow> api \<times> 'w sys" where
  "net_user_add B ui s =
     (let (r, w) = NetUserAdd B ui (world s)
      in (r, s\<lparr>world := w, calls := calls s @ [WinAdd ui]\<rparr>))"

definition net_user_del :: "'w os \<Rightarrow> string \<Rightarrow> 'w sys \<Rightarrow> api \<times> 'w sys" where
  "net_user_del B username s =
     (let (r, w) = NetUserDel B username (world s)
      in (r, s\<lparr>world := w, calls := calls s @ [WinDel username]\<rparr>))"

definition net_user_set_info :: "'w os \<Rightarrow> string \<Rightarrow> user_info \<Rightarrow> 'w sys \<Rightarrow> api \<times> 'w sys" where
  "net_user_set_info B username ui s =
     (let (r, w) = NetUserSetInfo B username ui (world s)
      in (r, s\<lparr>world := w, calls := calls s @ [WinSetInfo username ui]\<rparr>))"

section \<open>class UserManager\<close>

text \<open>\<open>self.system = sys.platform\<close>.\<close>

record UserManager =
  system :: string

text \<open>Python's truth value of an \<open>Optional[str]\<close>: \<open>None\<close> and \<open>""\<close> are false.\<close>

fun truthy :: "string option \<Rightarrow> bool" where
  "truthy None = False"
| "truthy (Some x) = (x \<noteq> [])"

text \<open>
  \<open>user_exists\<close> (lines 42-58): every exception of the lookup is caught and means
  \<open>False\<close>.
\<close>

definition user_exists :: "UserManager \<Rightarrow> 'w os \<Rightarrow> string \<Rightarrow> 'w sys \<Rightarrow> bool" where
  "user_exists self B username s =
     (if system self = ''win32'' then NetUserGetInfo B username (world s)
      else getpwnam B username (world s))"

text \<open>\<open>_update_password_linux\<close> (lines 248-271). The input line ends with a newline.\<close>

definition update_password_linux :: "'w os \<Rightarrow> string \<Rightarrow> string \<Rightarrow> 'w sys \<Rightarrow> bool \<times> 'w sys" where
  "update_password_linux B username password s =
     (let (r, s1) = popen_communicate B [''sudo'', ''chpasswd'']
                      (username @ '':'' @ password @ [CHR 0x0A]) s
      in case r of
           Exited rc err \<Rightarrow>
             if rc = 0
             then (True, logger INFO (''Successfully updated password for '' @ quoted username) s1)
             else (False, logger ERROR (''chpasswd failed: '' @ err) s1)
         | NotStarted e \<Rightarrow>
             (False, logger ERROR
                (''Password update failed for '' @ quoted username @ '': '' @ e) s1))"

text \<open>\<open>_update_password_windows\<close> (lines 273-291).\<close>

definition update_password_windows :: "'w os \<Rightarrow> string \<Rightarrow> string \<Rightarrow> 'w sys \<Rightarrow> bool \<times> 'w sys" where
  "update_password_windows B username password s =
     (let user_info = \<lparr>ui_name = username, ui_password = password, ui_priv = 1,
                       ui_home_dir = None, ui_comment = None, ui_flags = None\<rparr>;
          (r, s1) = net_user_set_info B username user_info s
      in case r of
           Done \<Rightarrow>
             (True, logger INFO (''Successfully updated password for '' @ quoted username) s1)
         | Raised e \<Rightarrow>
             (False, logger ERROR
                (''Failed to update Windows password for '' @ quoted username @ '': '' @ e) s1))"

text \<open>
  \<open>update_password\<close> (lines 216-246). With \<open>password is None\<close> the password is asked for
  twice. Both platform functions catch every exception themselves, so the
  \<open>except Exception\<close> of this function has nothing left to catch.
\<close>

text \<open>
  Left out of the model: a prompt that is interrupted (\<open>getpass\<close> raising), which leaves
  \<open>update_password\<close> before any call is made; the argument parser and exit codes of
  \<open>main\<close>; and \<open>_list_users_windows\<close>.
\<close>

definition update_password ::
  "UserManager \<Rightarrow> 'w os \<Rightarrow> string \<Rightarrow> string option \<Rightarrow> 'w sys \<Rightarrow> bool \<times> 'w sys" where
  "update_password self B username password s =
     (if \<not> user_exists self B username s
      then (False, logger ERROR (''User '' @ quoted username @ '' does not exist'') s)
      else
        (let (matching, pw) =
               (case password of
                  None \<Rightarrow>
                    (let p = getpass B (''Enter new password for '' @ username @ '': '');
                         confirm = getpass B ''Confirm password: ''
                     in (p = confirm, p))
                | Some p \<Rightarrow> (True, p))
         in if \<not> matching then (False, logger ERROR ''Passwords do not match'' s)
            else if system self = ''win32'' then update_password_windows B username pw s
            else update_password_linux B username pw s))"

text \<open>
  The \<open>useradd\<close> command line (lines 97-112). An explicit \<open>home_dir\<close> that is not empty
  takes the first branch, whatever \<open>create_home\<close> is.
\<close>

definition useradd_cmd ::
  "string \<Rightarrow> string \<Rightarrow> string option \<Rightarrow> bool \<Rightarrow> bool \<Rightarrow> string list" where
  "useradd_cmd username shell home_dir create_home system_user =
     [''sudo'', ''useradd'']
     @ (if system_user then [''-r''] else [])
     @ (case home_dir of
          Some d \<Rightarrow>
            if d \<noteq> [] then [''-d'', d]
            else if create_home then [''-m'', ''-d'', ''/home/'' @ username]
            else [''-M'']
        | None \<Rightarrow>
            if create_home then [''-m'', ''-d'', ''/home/'' @ username]
            else [''-M''])
     @ (if shell \<noteq> [] then [''-s'', shell] else [])
     @ [username]"

text \<open>
  \<open>_create_user_linux\<close> (lines 91-128). A return code other than 0 is the
  \<open>CalledProcessError\<close> caught here; any other exception of \<open>subprocess.run\<close> leaves the
  function (\<open>Inl\<close>) and is caught by \<open>create_user\<close>. The value \<open>update_password\<close> returns
  is not looked at (line 119).
\<close>

definition create_user_linux ::
  "UserManager \<Rightarrow> 'w os \<Rightarrow> string \<Rightarrow> string option \<Rightarrow> string \<Rightarrow> string option \<Rightarrow> bool \<Rightarrow> bool
     \<Rightarrow> 'w sys \<Rightarrow> (string + bool) \<times> 'w sys" where
  "create_user_linux self B username password shell home_dir create_home system_user s =
     (let cmd = useradd_cmd username shell home_dir create_home system_user;
          (r, s1) = subprocess_run B cmd s
      in case r of
           Exited rc err \<Rightarrow>
             if rc = 0
             then
               (let s2 = (if truthy password
                          then snd (update_password self B username password s1)
                          else logger WARNING
                                 (''User '' @ quoted username
                                    @ '' created without password - account may be disabled'') s1)
                in (Inr True, logger INFO (''Successfully created user '' @ quoted username) s2))
             else (Inr False, logger ERROR (''useradd command failed: '' @ err) s1)
         | NotStarted e \<Rightarrow> (Inl e, s1))"

text \<open>\<open>_create_user_windows\<close> (lines 130-156); \<open>password or ""\<close>.\<close>

definition create_user_windows ::
  "'w os \<Rightarrow> string \<Rightarrow> string option \<Rightarrow> 'w sys \<Rightarrow> bool \<times> 'w sys" where
  "create_user_windows B username password s =
     (let user_info =
            \<lparr>ui_name = username,
             ui_password = (case password of None \<Rightarrow> [] | Some p \<Rightarrow> p),
             ui_priv = 1,
             ui_home_dir = Some None,
             ui_comment = Some ''Created by Python UserManager'',
             ui_flags = Some 65537\<rparr>;
          (r, s1) = net_user_add B user_info s
      in case r of
           Done \<Rightarrow>
             (True,
              if \<not> truthy password
              then logger WARNING (''User '' @ quoted username @ '' created with empty password'') s1
              else logger INFO
                     (''Successfully created user '' @ quoted username @ '' with password'') s1)
         | Raised e \<Rightarrow>
             (False, logger ERROR
                (''Failed to create Windows user '' @ quoted username @ '': '' @ e) s1))"

text \<open>\<open>create_user\<close> (lines 60-89).\<close>

definition create_user ::
  "UserManager \<Rightarrow> 'w os \<Rightarrow> string \<Rightarrow> string option \<Rightarrow> string \<Rightarrow> string option \<Rightarrow> bool \<Rightarrow> bool
     \<Rightarrow> 'w sys \<Rightarrow> bool \<times> 'w sys" where
  "create_user self B username password shell home_dir create_home system_user s =
     (if user_exists self B username s
      then (False, logger ERROR (''User '' @ quoted username @ '' already exists'') s)
      else if system self = ''win32'' then create_user_windows B username password s
      else
        (case create_user_linux self B username password shell home_dir create_home
                system_user s of
           (Inr b, s1) \<Rightarrow> (b, s1)
         | (Inl e, s1) \<Rightarrow>
             (False, logger ERROR
                (''Failed to create user '' @ quoted username @ '': '' @ e) s1)))"

text \<open>\<open>_delete_user_linux\<close> (lines 183-197).\<close>

definition delete_user_linux ::
  "'w os \<Rightarrow> string \<Rightarrow> bool \<Rightarrow> 'w sys \<Rightarrow> (string + bool) \<times> 'w sys" where
  "delete_user_linux B username remove_home s =
     (let cmd = [''sudo'', ''userdel''] @ (if remove_home then [''-r''] else []) @ [username];
          (r, s1) = subprocess_run B cmd s
      in case r of
           Exited rc err \<Rightarrow>
             if rc = 0
             then (Inr True, logger INFO (''Successfully deleted user '' @ quoted username) s1)
             else (Inr False, logger ERROR (''userdel command failed: '' @ err) s1)
         | NotStarted e \<Rightarrow> (Inl e, s1))"

text \<open>\<open>_delete_user_windows\<close> (lines 199-214).\<close>

definition delete_user_windows :: "'w os \<Rightarrow> string \<Rightarrow> bool \<Rightarrow> 'w sys \<Rightarrow> bool \<times> 'w sys" where
  "delete_user_windows B username remove_home s =
     (let (r, s1) = net_user_del B username s
      in case r of
           Done \<Rightarrow>
             (let s2 = (if remove_home
                        then logger WARNING
                               ''Home directory removal not implemented for Windows in this script'' s1
                        else s1)
              in (True, logger INFO (''Successfully deleted user '' @ quoted username) s2))
         | Raised e \<Rightarrow>
             (False, logger ERROR
                (''Failed to delete Windows user '' @ quoted username @ '': '' @ e) s1))"

text \<open>\<open>delete_user\<close> (lines 158-181).\<close>

definition delete_user ::
  "UserManager \<Rightarrow> 'w os \<Rightarrow> string \<Rightarrow> bool \<Rightarrow> 'w sys \<Rightarrow> bool \<times> 'w sys" where
  "delete_user self B username remove_home s =
     (if \<not> user_exists self B username s
      then (False, logger ERROR (''User '' @ quoted username @ '' does not exist'') s)
      else if system self = ''win32'' then delete_user_windows B username remove_home s
      else
        (case delete_user_linux B username remove_home s of
           (Inr b, s1) \<Rightarrow> (b, s1)
         | (Inl e, s1) \<Rightarrow>
             (False, logger ERROR
                (''Failed to delete user '' @ quoted username @ '': '' @ e) s1)))"

section \<open>Listing (POSIX)\<close>

text \<open>
  \<open>str.lower()\<close> on code points below 256: the letters A-Z and the Latin-1 capitals
  0xC0-0xDE without the multiplication sign 0xD7 move up by 32, every other character
  stays.
\<close>

definition lower_char :: "char \<Rightarrow> char" where
  "lower_char c =
     (let n = (of_char c :: nat)
      in if (65 \<le> n \<and> n \<le> 90) \<or> (192 \<le> n \<and> n \<le> 222 \<and> n \<noteq> 215)
         then char_of (n + 32) else c)"

definition lower :: "string \<Rightarrow> string" where
  "lower x = map lower_char x"

text \<open>Python's \<open>p in x\<close> on strings: \<open>p\<close> occurs in \<open>x\<close> as a block.\<close>

fun starts_with :: "string \<Rightarrow> string \<Rightarrow> bool" where
  "starts_with [] x = True"
| "starts_with (a # p) [] = False"
| "starts_with (a # p) (b # x) = (a = b \<and> starts_with p x)"

fun str_in :: "string \<Rightarrow> string \<Rightarrow> bool" where
  "str_in p [] = (p = [])"
| "str_in p (b # x) = (starts_with p (b # x) \<or> str_in p x)"

text \<open>
  The test of line 309, \<open>pattern and pattern.lower() not in username.lower()\<close>: the
  entry is passed over.
\<close>

definition filtered_out :: "string option \<Rightarrow> string \<Rightarrow> bool" where
  "filtered_out pattern username =
     (truthy pattern
      \<and> \<not> str_in (lower (case pattern of Some p \<Rightarrow> p | None \<Rightarrow> [])) (lower username))"

type_synonym row = "string \<times> int \<times> string"

text \<open>The tuple of line 312; \<open>user.pw_gecos or "No description"\<close>.\<close>

definition row_of :: "pwent \<Rightarrow> row" where
  "row_of user =
     (pw_name user, pw_uid user,
      if pw_gecos user \<noteq> [] then pw_gecos user else ''No description'')"

text \<open>
  The loop of \<open>_list_users_linux\<close> (lines 306-312), with \<open>users\<close> as the accumulator.
\<close>

fun list_loop :: "string option \<Rightarrow> pwent list \<Rightarrow> row list \<Rightarrow> row list" where
  "list_loop pattern [] users = users"
| "list_loop pattern (user # rest) users =
     (let username = pw_name user
      in if filtered_out pattern username then list_loop pattern rest users
         else if pw_uid user \<ge> 1000 \<or> pw_uid user = 0
         then list_loop pattern rest (users @ [row_of user])
         else list_loop pattern rest users)"

text \<open>
  The entries for which the loop body reaches \<open>users.append\<close>: not passed over at
  line 309 and accepted by the test of line 311.
\<close>

definition kept :: "string option \<Rightarrow> pwent \<Rightarrow> bool" where
  "kept pattern e \<longleftrightarrow> \<not> filtered_out pattern (pw_name e) \<and> (pw_uid e \<ge> 1000 \<or> pw_uid e = 0)"

text \<open>
  What \<open>_list_users_linux\<close> prints (lines 314-320): a header and one line for each
  tuple of \<open>sorted(users)\<close>, in that order, or the line \<open>No users found\<close>. The model keeps
  the tuples and leaves the column layout of each line out.
\<close>

datatype listing = Table "row list" | NoUsersFound

definition list_users_linux :: "'w os \<Rightarrow> string option \<Rightarrow> 'w sys \<Rightarrow> listing" where
  "list_users_linux B pattern s =
     (let users = list_loop pattern (getpwall B (world s)) []
      in if users \<noteq> [] then Table (sort users) else NoUsersFound)"

text \<open>The tuples of a listing, in the order printed.\<close>

fun rows_of :: "listing \<Rightarrow> row list" where
  "rows_of (Table rs) = rs"
| "rows_of NoUsersFound = []"

section \<open>A test double for the host\<close>

text \<open>
  A small host to run the script on: the account entries, the home directories that
  exist, the password set for each name, and the names of the programs and API calls
  that are made to fail. \<open>useradd\<close> creates \<open>/home/<name>\<close> only when it is given \<open>-m\<close>,
  and, as the \<open>useradd\<close> of shadow-utils does, reads a last argument \<open>-h\<close> or \<open>--help\<close>
  as the request for help: it prints the usage text to stdout, ends with code 0 and
  creates nothing. \<open>chpasswd\<close> reads one line \<open>name:password\<close>. The test double is used
  for the concrete runs below only; the general theorems are about every host.
\<close>

record mock_host =
  entries :: "pwent list"
  dirs :: "string list"
  secrets :: "(string \<times> string) list"
  failing :: "string list"

definition mock_known :: "string \<Rightarrow> mock_host \<Rightarrow> bool" where
  "mock_known u w = (u \<in> set (map pw_name (entries w)))"

definition mock_spawn :: "string list \<Rightarrow> string \<Rightarrow> mock_host \<Rightarrow> proc \<times> mock_host" where
  "mock_spawn argv inp w =
     (case argv of
        sudo # prog # args \<Rightarrow>
          if prog \<in> set (failing w) then (Exited 1 (prog @ '': failed''), w)
          else if prog = ''useradd'' \<and> args \<noteq> [] then
            (let u = last args
             in if u = ''-h'' \<or> u = ''--help'' then (Exited 0 [], w)
                else
                  (Exited 0 [],
                   w\<lparr>entries := entries w
                        @ [\<lparr>pw_name = u, pw_uid = 1000 + int (length (entries w)),
                            pw_gecos = []\<rparr>],
                     dirs := (if ''-m'' \<in> set args then dirs w @ [''/home/'' @ u]
                              else dirs w)\<rparr>))
          else if prog = ''userdel'' \<and> args \<noteq> [] then
            (let u = last args
             in (Exited 0 [],
                 w\<lparr>entries := filter (\<lambda>e. pw_name e \<noteq> u) (entries w),
                   dirs := (if ''-r'' \<in> set args
                            then filter (\<lambda>d. d \<noteq> ''/home/'' @ u) (dirs w) else dirs w)\<rparr>))
          else if prog = ''chpasswd'' then
            (let u = takeWhile (\<lambda>c. c \<noteq> CHR '':'') inp;
                 p = butlast (drop (Suc (length u)) inp)
             in if mock_known u w
                then (Exited 0 [], w\<lparr>secrets := (u, p) # filter (\<lambda>x. fst x \<noteq> u) (secrets w)\<rparr>)
                else (Exited 1 ''chpasswd: unknown user'', w))
          else (NotStarted ''No such file or directory'', w)
      | _ \<Rightarrow> (NotStarted ''No such file or directory'', w))"

definition mock_add :: "user_info \<Rightarrow> mock_host \<Rightarrow> api \<times> mock_host" where
  "mock_add ui w =
     (if ''NetUserAdd'' \<in> set (failing w) then (Raised ''NetUserAdd failed'', w)
      else (Done,
            w\<lparr>entries := entries w
                 @ [\<lparr>pw_name = ui_name ui, pw_uid = 1000 + int (length (entries w)),
                     pw_gecos = []\<rparr>],
              secrets := (ui_name ui, ui_password ui)
                           # filter (\<lambda>x. fst x \<noteq> ui_name ui) (secrets w)\<rparr>))"

definition mock_del :: "string \<Rightarrow> mock_host \<Rightarrow> api \<times> mock_host" where
  "mock_del u w =
     (if ''NetUserDel'' \<in> set (failing w) then (Raised ''NetUserDel failed'', w)
      else (Done, w\<lparr>entries := filter (\<lambda>e. pw_name e \<noteq> u) (entries w)\<rparr>))"

definition mock_set :: "string \<Rightarrow> user_info \<Rightarrow> mock_host \<Rightarrow> api \<times> mock_host" where
  "mock_set u ui w =
     (if ''NetUserSetInfo'' \<in> set (failing w) then (Raised ''NetUserSetInfo failed'', w)
      else (Done, w\<lparr>secrets := (u, ui_password ui) # filter (\<lambda>x. fst x \<noteq> u) (secrets w)\<rparr>))"

definition mock :: "mock_host os" where
  "mock = \<lparr>getpwnam = mock_known, getpwall = entries, spawn = mock_spawn,
           NetUserGetInfo = mock_known, NetUserAdd = mock_add, NetUserDel = mock_del,
           NetUserSetInfo = mock_set, getpass = (\<lambda>prompt. ''typed'')\<rparr>"

definition posix :: UserManager where
  "posix = \<lparr>system = ''linux''\<rparr>"

definition windows :: UserManager where
  "windows = \<lparr>system = ''win32''\<rparr>"

text \<open>A host with the root account only, and the same host with \<open>chpasswd\<close> failing.\<close>

definition fresh_host :: mock_host where
  "fresh_host =
     \<lparr>entries = [\<lparr>pw_name = ''root'', pw_uid = 0, pw_gecos = ''root''\<rparr>],
      dirs = [], secrets = [], failing = []\<rparr>"

definition start :: "mock_host \<Rightarrow> mock_host sys" where
  "start w = \<lparr>world = w, calls = [], logs = []\<rparr>"

definition fresh :: "mock_host sys" where
  "fresh = start fresh_host"

definition fresh_chpasswd_down :: "mock_host sys" where
  "fresh_chpasswd_down = start (fresh_host\<lparr>failing := [''chpasswd'']\<rparr>)"

text \<open>Hosts with more accounts, for the runs of \<open>delete\<close>, \<open>password\<close> and \<open>list\<close>.\<close>

definition alice_host :: mock_host where
  "alice_host =
     \<lparr>entries = [\<lparr>pw_name = ''root'', pw_uid = 0, pw_gecos = ''root''\<rparr>,
                 \<lparr>pw_name = ''alice'', pw_uid = 1001, pw_gecos = []\<rparr>],
      dirs = [''/home/alice''], secrets = [(''alice'', ''old'')], failing = []\<rparr>"

definition with_alice :: "mock_host sys" where
  "with_alice = start alice_host"

definition office_host :: mock_host where
  "office_host =
     \<lparr>entries = [\<lparr>pw_name = ''root'', pw_uid = 0, pw_gecos = ''root''\<rparr>,
                 \<lparr>pw_name = ''daemon'', pw_uid = 1, pw_gecos = ''daemon''\<rparr>,
                 \<lparr>pw_name = ''badmin'', pw_uid = 1001, pw_gecos = []\<rparr>,
                 \<lparr>pw_name = ''Admin'', pw_uid = 1000, pw_gecos = ''Site admin''\<rparr>,
                 \<lparr>pw_name = ''sysadm'', pw_uid = 999, pw_gecos = ''Operator''\<rparr>],
      dirs = [], secrets = [], failing = []\<rparr>"

definition office :: "mock_host sys" where
  "office = start office_host"

section \<open>The filter of \<open>list\<close> in the specification's words\<close>

text \<open>
  The username contains the pattern as a substring, compared case-insensitively: the
  lowered pattern is a block of the lowered name. Without a pattern every name passes.
\<close>

definition contains_ci :: "string option \<Rightarrow> string \<Rightarrow> bool" where
  "contains_ci pattern name \<longleftrightarrow>
     (case pattern of None \<Rightarrow> True | Some p \<Rightarrow> (\<exists>a b. lower name = a @ lower p @ b))"

section \<open>Facts about the test double\<close>

lemma mock_fields:
  "getpwnam mock = mock_known" "getpwall mock = entries" "spawn mock = mock_spawn"
  "NetUserGetInfo mock = mock_known" "NetUserAdd mock = mock_add"
  "NetUserDel mock = mock_del" "NetUserSetInfo mock = mock_set"
  by (simp_all add: mock_def)

section \<open>How each function runs\<close>

lemma logger_fields [simp]:
  "world (logger l m s) = world s" "calls (logger l m s) = calls s"
  "logs (logger l m s) = logs s @ [(l, m)]"
  by (simp_all add: logger_def)

lemma update_password_linux_state:
  assumes "spawn B [''sudo'', ''chpasswd''] (u @ '':'' @ p @ [CHR 0x0A]) (world s) = (r, w)"
  shows "world (snd (update_password_linux B u p s)) = w"
    and "calls (snd (update_password_linux B u p s))
           = calls s @ [Spawn [''sudo'', ''chpasswd''] (u @ '':'' @ p @ [CHR 0x0A])]"
    and "fst (update_password_linux B u p s) = (\<exists>err. r = Exited 0 err)"
  using assms
  by (simp_all add: update_password_linux_def popen_communicate_def split: proc.splits)


lemma update_password_windows_state:
  assumes "NetUserSetInfo B u \<lparr>ui_name = u, ui_password = p, ui_priv = 1,
             ui_home_dir = None, ui_comment = None, ui_flags = None\<rparr> (world s) = (r, w)"
  shows "world (snd (update_password_windows B u p s)) = w"
    and "calls (snd (update_password_windows B u p s))
           = calls s @ [WinSetInfo u \<lparr>ui_name = u, ui_password = p, ui_priv = 1,
                          ui_home_dir = None, ui_comment = None, ui_flags = None\<rparr>]"
    and "fst (update_password_windows B u p s) = (r = Done)"
  using assms
  by (simp_all add: update_password_windows_def net_user_set_info_def Let_def split: api.splits)

lemma create_user_linux_run:
  assumes "spawn B (useradd_cmd u sh hdir ch sy) [] (world s) = (r, w1)"
  shows "create_user_linux self B u pw sh hdir ch sy s =
     (let s1 = s\<lparr>world := w1, calls := calls s @ [Spawn (useradd_cmd u sh hdir ch sy) []]\<rparr>
      in case r of
           Exited rc err \<Rightarrow>
             if rc = 0
             then (Inr True, logger INFO (''Successfully created user '' @ quoted u)
                     (if truthy pw then snd (update_password self B u pw s1)
                      else logger WARNING
                             (''User '' @ quoted u
                                @ '' created without password - account may be disabled'') s1))
             else (Inr False, logger ERROR (''useradd command failed: '' @ err) s1)
         | NotStarted e \<Rightarrow> (Inl e, s1))"
  using assms by (simp add: create_user_linux_def subprocess_run_def Let_def split: proc.splits)

lemma delete_user_windows_run:
  assumes "NetUserDel B u (world s) = (r, w1)"
  shows "delete_user_windows B u rh s =
     (let s1 = s\<lparr>world := w1, calls := calls s @ [WinDel u]\<rparr>
      in case r of
           Done \<Rightarrow>
             (True, logger INFO (''Successfully deleted user '' @ quoted u)
                (if rh
                 then logger WARNING
                        ''Home directory removal not implemented for Windows in this script'' s1
                 else s1))
         | Raised e \<Rightarrow>
             (False, logger ERROR (''Failed to delete Windows user '' @ quoted u @ '': '' @ e) s1))"
  using assms by (simp add: delete_user_windows_def net_user_del_def Let_def split: api.splits)

section \<open>Setting a password\<close>

text \<open>
  C7. For every username that does not exist, \<open>update_password\<close> returns \<open>False\<close> with the
  error record \<open>User '<name>' does not exist\<close>, and makes no call that could change the
  account store: the list of calls and the host are as before.
\<close>

theorem update_password_missing_user:
  assumes "\<not> user_exists self B username s"
  shows "update_password self B username password s
           = (False, logger ERROR (''User '' @ quoted username @ '' does not exist'') s)
         \<and> calls (snd (update_password self B username password s)) = calls s
         \<and> world (snd (update_password self B username password s)) = world s"
  using assms by (simp add: update_password_def logger_def)

theorem update_password_missing_user_witness:
  "\<not> user_exists posix mock ''alice'' fresh
   \<and> fst (update_password posix mock ''alice'' (Some ''s3cr3t'') fresh) = False
   \<and> calls (snd (update_password posix mock ''alice'' (Some ''s3cr3t'') fresh)) = []"
proof -
  have h: "\<not> user_exists posix mock ''alice'' fresh"
    by (simp add: user_exists_def posix_def mock_fields mock_known_def fresh_def start_def
        fresh_host_def)
  have c: "calls fresh = []"
    by (simp add: fresh_def start_def)
  show ?thesis
    using h c update_password_missing_user [OF h, of "Some ''s3cr3t''"] by (simp add: logger_def)
qed

section \<open>A username that \<open>useradd\<close> reads as an option\<close>

text \<open>
  Line 112 appends the username to the \<open>useradd\<close> command line as it is, with no \<open>--\<close>
  before it and no check of its form. The command line of \<open>create -- -h\<close> therefore ends
  with \<open>-h\<close>, \<open>useradd\<close> prints its usage and ends with code 0, and the script takes
  that for a created account.
\<close>

text \<open>
  C3. \<open>create_user\<close> with the username \<open>-h\<close> on a host without that account: the one
  call made is the \<open>useradd\<close> whose last argument is \<open>-h\<close>, the call returns \<open>True\<close> and
  logs success, and \<open>user_exists\<close> is \<open>False\<close> in the state it leaves.
\<close>

theorem create_option_name_not_created:
  "fst (create_user posix mock ''-h'' None ''/bin/bash'' None True False fresh) = True
   \<and> \<not> user_exists posix mock ''-h''
         (snd (create_user posix mock ''-h'' None ''/bin/bash'' None True False fresh))
   \<and> calls (snd (create_user posix mock ''-h'' None ''/bin/bash'' None True False fresh))
       = [Spawn [''sudo'', ''useradd'', ''-m'', ''-d'', ''/home/-h'', ''-s'', ''/bin/bash'',
                 ''-h''] []]
   \<and> (INFO, ''Successfully created user '' @ quoted ''-h'')
        \<in> set (logs (snd (create_user posix mock ''-h'' None ''/bin/bash'' None True False
                            fresh)))"
  by code_simp

text \<open>
  C4. Two calls of \<open>create_user\<close> in succession with the username \<open>-h\<close>: both return
  \<open>True\<close>, the second runs \<open>useradd\<close> again, and no \<open>already exists\<close> error is logged.
\<close>

theorem create_option_name_twice:
  "fst (create_user posix mock ''-h'' None ''/bin/bash'' None True False fresh) = True
   \<and> fst (create_user posix mock ''-h'' None ''/bin/bash'' None True False
            (snd (create_user posix mock ''-h'' None ''/bin/bash'' None True False fresh)))
       = True
   \<and> calls (snd (create_user posix mock ''-h'' None ''/bin/bash'' None True False
            (snd (create_user posix mock ''-h'' None ''/bin/bash'' None True False fresh))))
       = [Spawn [''sudo'', ''useradd'', ''-m'', ''-d'', ''/home/-h'', ''-s'', ''/bin/bash'',
                 ''-h''] [],
          Spawn [''sudo'', ''useradd'', ''-m'', ''-d'', ''/home/-h'', ''-s'', ''/bin/bash'',
                 ''-h''] []]
   \<and> (ERROR, ''User '' @ quoted ''-h'' @ '' already exists'')
        \<notin> set (logs (snd (create_user posix mock ''-h'' None ''/bin/bash'' None True False
            (snd (create_user posix mock ''-h'' None ''/bin/bash'' None True False fresh)))))"
  by code_simp

section \<open>No compensation\<close>

text \<open>
  C1, as stated, fails: there is no executor and no compensating action. On the test double
  with \<open>chpasswd\<close> failing, \<open>create_user\<close> creates the entry, the credential step fails
  (the error is logged), and nothing is undone: the calls made are the two forward steps
  only, the account exists afterwards and the host is not the host before.
\<close>

theorem create_no_rollback_counterexample:
  "\<not> user_exists posix mock ''alice'' fresh_chpasswd_down
   \<and> user_exists posix mock ''alice''
        (snd (create_user posix mock ''alice'' (Some ''s3cr3t'') ''/bin/bash'' None True False
                fresh_chpasswd_down))
   \<and> calls (snd (create_user posix mock ''alice'' (Some ''s3cr3t'') ''/bin/bash'' None True False
                fresh_chpasswd_down))
       = [Spawn [''sudo'', ''useradd'', ''-m'', ''-d'', ''/home/alice'', ''-s'', ''/bin/bash'',
                 ''alice''] [],
          Spawn [''sudo'', ''chpasswd''] (''alice:s3cr3t'' @ [CHR 0x0A])]
   \<and> (ERROR, ''chpasswd failed: chpasswd: failed'')
        \<in> set (logs (snd (create_user posix mock ''alice'' (Some ''s3cr3t'') ''/bin/bash'' None
                            True False fresh_chpasswd_down)))
   \<and> world (snd (create_user posix mock ''alice'' (Some ''s3cr3t'') ''/bin/bash'' None True False
                fresh_chpasswd_down))
       \<noteq> world fresh_chpasswd_down"
  by code_simp

text \<open>
  C1, amended. On POSIX, when the credential step (\<open>chpasswd\<close>) fails after \<open>useradd\<close>
  created the account entry, no compensating action is run: the calls made are exactly
  the two forward steps, in order, and the account store is left exactly as the failed
  \<open>chpasswd\<close> left it.
\<close>

theorem create_linux_no_compensation:
  assumes "system self \<noteq> ''win32''"
    and "\<not> user_exists self B u s" and "p \<noteq> []"
    and "spawn B (useradd_cmd u sh hdir ch sy) [] (world s) = (Exited 0 err, w1)"
    and "getpwnam B u w1"
    and "spawn B [''sudo'', ''chpasswd''] (u @ '':'' @ p @ [CHR 0x0A]) w1 = (r, w2)"
    and "\<forall>e. r \<noteq> Exited 0 e"
  shows "calls (snd (create_user self B u (Some p) sh hdir ch sy s))
           = calls s @ [Spawn (useradd_cmd u sh hdir ch sy) [],
                        Spawn [''sudo'', ''chpasswd''] (u @ '':'' @ p @ [CHR 0x0A])]
       \<and> world (snd (create_user self B u (Some p) sh hdir ch sy s)) = w2"
proof -
  let ?s1 = "s\<lparr>world := w1, calls := calls s @ [Spawn (useradd_cmd u sh hdir ch sy) []]\<rparr>"
  have ex1: "user_exists self B u ?s1"
    using assms(1,5) by (simp add: user_exists_def)
  have sp2: "spawn B [''sudo'', ''chpasswd''] (u @ '':'' @ p @ [CHR 0x0A]) (world ?s1) = (r, w2)"
    using assms(6) by simp
  have up: "update_password self B u (Some p) ?s1 = update_password_linux B u p ?s1"
    using ex1 assms(1) by (simp add: update_password_def)
  have cu: "create_user self B u (Some p) sh hdir ch sy s
              = (True, logger INFO (''Successfully created user '' @ quoted u)
                         (snd (update_password_linux B u p ?s1)))"
    using assms(1,2,3) up
    by (simp add: create_user_def create_user_linux_run [OF assms(4)] Let_def)
  show ?thesis
    unfolding cu
    using update_password_linux_state(1,2) [OF sp2]
    by simp
qed

theorem create_linux_no_compensation_witness:
  "getpwnam mock ''alice''
     (snd (spawn mock (useradd_cmd ''alice'' ''/bin/bash'' None True False) []
             (world fresh_chpasswd_down)))
   \<and> calls (snd (create_user posix mock ''alice'' (Some ''s3cr3t'') ''/bin/bash'' None True False
                fresh_chpasswd_down))
     = calls fresh_chpasswd_down
         @ [Spawn (useradd_cmd ''alice'' ''/bin/bash'' None True False) [],
            Spawn [''sudo'', ''chpasswd''] (''alice'' @ '':'' @ ''s3cr3t'' @ [CHR 0x0A])]
   \<and> world (snd (create_user posix mock ''alice'' (Some ''s3cr3t'') ''/bin/bash'' None True False
                fresh_chpasswd_down))
     = snd (spawn mock (useradd_cmd ''alice'' ''/bin/bash'' None True False) []
             (world fresh_chpasswd_down))"
proof -
  have a1: "system posix \<noteq> ''win32''" by (simp add: posix_def)
  have a2: "\<not> user_exists posix mock ''alice'' fresh_chpasswd_down" by code_simp
  have a3: "''s3cr3t'' \<noteq> []" by simp
  have a4: "spawn mock (useradd_cmd ''alice'' ''/bin/bash'' None True False) []
              (world fresh_chpasswd_down)
            = (Exited 0 [], snd (spawn mock (useradd_cmd ''alice'' ''/bin/bash'' None True False) []
              (world fresh_chpasswd_down)))"
    by code_simp
  have a5: "getpwnam mock ''alice''
              (snd (spawn mock (useradd_cmd ''alice'' ''/bin/bash'' None True False) []
                      (world fresh_chpasswd_down)))"
    by code_simp
  have a6: "spawn mock [''sudo'', ''chpasswd''] (''alice'' @ '':'' @ ''s3cr3t'' @ [CHR 0x0A])
              (snd (spawn mock (useradd_cmd ''alice'' ''/bin/bash'' None True False) []
              (world fresh_chpasswd_down)))
            = (Exited 1 ''chpasswd: failed'',
               snd (spawn mock (useradd_cmd ''alice'' ''/bin/bash'' None True False) []
              (world fresh_chpasswd_down)))"
    by code_simp
  have a7: "\<forall>e. Exited 1 ''chpasswd: failed'' \<noteq> Exited 0 e" by simp
  show ?thesis
    using a5 create_linux_no_compensation [OF a1 a2 a3 a4 a5 a6 a7] by simp
qed

text \<open>
  C2. \<open>create_user\<close> with a non-empty credential and home creation requested, on a host
  where \<open>chpasswd\<close> fails: line 119 drops the result of \<open>update_password\<close>, so the call
  returns \<open>True\<close> and logs success although no credential was set (the log holds the
  \<open>chpasswd failed\<close> error just before the success record).
\<close>

theorem create_reports_success_credential_unset:
  "fst (create_user posix mock ''alice'' (Some ''s3cr3t'') ''/bin/bash'' None True False
          fresh_chpasswd_down) = True
   \<and> secrets (world (snd (create_user posix mock ''alice'' (Some ''s3cr3t'') ''/bin/bash'' None
                         True False fresh_chpasswd_down))) = []
   \<and> logs (snd (create_user posix mock ''alice'' (Some ''s3cr3t'') ''/bin/bash'' None
                   True False fresh_chpasswd_down))
       = [(ERROR, ''chpasswd failed: chpasswd: failed''),
          (INFO, ''Successfully created user '' @ quoted ''alice'')]"
  by code_simp

section \<open>An empty credential\<close>

text \<open>
  C5, as stated, fails: \<open>update_password\<close> has no check of the credential. With the
  empty string for an existing account it starts \<open>sudo chpasswd\<close> with the line
  \<open>alice:\<close>, returns \<open>True\<close>, and the test double ends with the empty password set.
\<close>

theorem update_password_empty_counterexample:
  "user_exists posix mock ''alice'' with_alice
   \<and> fst (update_password posix mock ''alice'' (Some []) with_alice) = True
   \<and> calls (snd (update_password posix mock ''alice'' (Some []) with_alice))
       = [Spawn [''sudo'', ''chpasswd''] (''alice:'' @ [CHR 0x0A])]
   \<and> secrets (world (snd (update_password posix mock ''alice'' (Some []) with_alice)))
       = [(''alice'', [])]"
  by code_simp

text \<open>
  C5, amended. For every existing username, \<open>update_password\<close> with the empty credential
  does not reject it: it makes exactly one call that hands the empty credential to the
  backend (\<open>sudo chpasswd\<close> with the line \<open><name>:\<close> on POSIX, \<open>NetUserSetInfo\<close> with
  password \<open>''\<close> on Windows) and returns whether that call succeeded.
\<close>

theorem update_password_empty_forwarded:
  assumes "user_exists self B u s"
  shows "calls (snd (update_password self B u (Some []) s))
           = calls s
             @ [if system self = ''win32''
                then WinSetInfo u \<lparr>ui_name = u, ui_password = [], ui_priv = 1,
                                   ui_home_dir = None, ui_comment = None, ui_flags = None\<rparr>
                else Spawn [''sudo'', ''chpasswd''] (u @ '':'' @ [CHR 0x0A])]
       \<and> fst (update_password self B u (Some []) s)
           = (if system self = ''win32''
              then fst (NetUserSetInfo B u \<lparr>ui_name = u, ui_password = [], ui_priv = 1,
                          ui_home_dir = None, ui_comment = None, ui_flags = None\<rparr> (world s)) = Done
              else (\<exists>err. fst (spawn B [''sudo'', ''chpasswd''] (u @ '':'' @ [CHR 0x0A]) (world s))
                            = Exited 0 err))"
proof (cases "system self = ''win32''")
  case True
  let ?ui = "\<lparr>ui_name = u, ui_password = [], ui_priv = 1,
              ui_home_dir = None, ui_comment = None, ui_flags = None\<rparr>"
  obtain r w where sp: "NetUserSetInfo B u ?ui (world s) = (r, w)"
    by (cases "NetUserSetInfo B u ?ui (world s)")
  have "update_password self B u (Some []) s = update_password_windows B u [] s"
    using assms True by (simp add: update_password_def)
  then show ?thesis
    using True sp update_password_windows_state(2,3) [OF sp] by simp
next
  case False
  obtain r w where sp: "spawn B [''sudo'', ''chpasswd''] (u @ '':'' @ [] @ [CHR 0x0A]) (world s) = (r, w)"
    by (cases "spawn B [''sudo'', ''chpasswd''] (u @ '':'' @ [] @ [CHR 0x0A]) (world s)")
  have "update_password self B u (Some []) s = update_password_linux B u [] s"
    using assms False by (simp add: update_password_def)
  then show ?thesis
    using False sp update_password_linux_state(2,3) [OF sp] by simp
qed

theorem update_password_empty_forwarded_witness:
  "user_exists windows mock ''alice'' with_alice
   \<and> calls (snd (update_password windows mock ''alice'' (Some []) with_alice))
       = calls with_alice
         @ [WinSetInfo ''alice'' \<lparr>ui_name = ''alice'', ui_password = [], ui_priv = 1,
                                  ui_home_dir = None, ui_comment = None, ui_flags = None\<rparr>]"
proof -
  have h: "user_exists windows mock ''alice'' with_alice" by code_simp
  have w: "system windows = ''win32''" by (simp add: windows_def)
  show ?thesis
    using h w update_password_empty_forwarded [OF h] by simp
qed

section \<open>Creating without a credential\<close>

text \<open>
  C6, as stated, fails: the plan does not end with a step that locks the credential. On
  POSIX a create without password makes one call, the \<open>useradd\<close> itself, and then only
  logs a warning.
\<close>

theorem create_without_credential_counterexample:
  "fst (create_user posix mock ''alice'' None ''/bin/bash'' None True False fresh) = True
   \<and> calls (snd (create_user posix mock ''alice'' None ''/bin/bash'' None True False fresh))
       = [Spawn [''sudo'', ''useradd'', ''-m'', ''-d'', ''/home/alice'', ''-s'', ''/bin/bash'',
                 ''alice''] []]
   \<and> logs (snd (create_user posix mock ''alice'' None ''/bin/bash'' None True False fresh))
       = [(WARNING, ''User '' @ quoted ''alice''
                      @ '' created without password - account may be disabled''),
          (INFO, ''Successfully created user '' @ quoted ''alice'')]"
  by code_simp

text \<open>
  C6, amended. On POSIX, for every create of a username that does not exist, with no
  credential (\<open>None\<close> or the empty string), no separate step sets or locks the credential:
  the only call made is the \<open>useradd\<close> that creates the account, and when the create
  succeeds the warning that the account may be disabled is logged.
\<close>

theorem create_without_credential_single_call:
  assumes "system self \<noteq> ''win32''" and "\<not> truthy pw" and "\<not> user_exists self B u s"
  shows "calls (snd (create_user self B u pw sh hdir ch sy s))
           = calls s @ [Spawn (useradd_cmd u sh hdir ch sy) []]
       \<and> (fst (create_user self B u pw sh hdir ch sy s) \<longrightarrow>
            (WARNING,
             ''User '' @ quoted u @ '' created without password - account may be disabled'')
            \<in> set (logs (snd (create_user self B u pw sh hdir ch sy s))))"
proof -
  let ?cmd = "useradd_cmd u sh hdir ch sy"
  let ?s1 = "s\<lparr>world := snd (spawn B ?cmd [] (world s)), calls := calls s @ [Spawn ?cmd []]\<rparr>"
  obtain r w1 where sp: "spawn B ?cmd [] (world s) = (r, w1)"
    by (cases "spawn B ?cmd [] (world s)")
  have cu: "create_user self B u pw sh hdir ch sy s
          = (case create_user_linux self B u pw sh hdir ch sy s of
               (Inr b, s1) \<Rightarrow> (b, s1)
             | (Inl e, s1) \<Rightarrow>
                 (False, logger ERROR (''Failed to create user '' @ quoted u @ '': '' @ e) s1))"
    using assms(1,3) by (simp add: create_user_def)
  have s1: "s\<lparr>world := w1, calls := calls s @ [Spawn ?cmd []]\<rparr> = ?s1"
    using sp by simp
  note run = create_user_linux_run [OF sp, of self pw, unfolded s1 Let_def]
  show ?thesis
  proof (cases r)
    case (Exited rc err)
    show ?thesis
    proof (cases "rc = 0")
      case True
      have "create_user self B u pw sh hdir ch sy s
              = (True, logger INFO (''Successfully created user '' @ quoted u)
                   (logger WARNING (''User '' @ quoted u
                       @ '' created without password - account may be disabled'') ?s1))"
        unfolding cu run using Exited True assms(2) by simp
      then show ?thesis by simp
    next
      case nz: False
      have "create_user self B u pw sh hdir ch sy s
              = (False, logger ERROR (''useradd command failed: '' @ err) ?s1)"
        unfolding cu run using Exited nz by simp
      then show ?thesis by simp
    qed
  next
    case (NotStarted e)
    have "create_user self B u pw sh hdir ch sy s
            = (False, logger ERROR (''Failed to create user '' @ quoted u @ '': '' @ e) ?s1)"
      unfolding cu run using NotStarted by simp
    then show ?thesis by simp
  qed
qed

theorem create_without_credential_single_call_witness:
  "system posix \<noteq> ''win32'' \<and> \<not> truthy None \<and> \<not> user_exists posix mock ''alice'' fresh
   \<and> calls (snd (create_user posix mock ''alice'' None ''/bin/bash'' None True False fresh))
       = calls fresh @ [Spawn (useradd_cmd ''alice'' ''/bin/bash'' None True False) []]
   \<and> (WARNING, ''User '' @ quoted ''alice''
                  @ '' created without password - account may be disabled'')
        \<in> set (logs (snd (create_user posix mock ''alice'' None ''/bin/bash'' None True False
                            fresh)))"
proof -
  have a0: "system posix \<noteq> ''win32''" by (simp add: posix_def)
  have a1: "\<not> truthy None" by simp
  have a2: "\<not> user_exists posix mock ''alice'' fresh" by code_simp
  have ok: "fst (create_user posix mock ''alice'' None ''/bin/bash'' None True False fresh)"
    by code_simp
  show ?thesis
    using a0 a1 a2 ok
      create_without_credential_single_call [OF a0 a1 a2, of "''/bin/bash''" None True False]
    by simp
qed

section \<open>Home removal on Windows\<close>

text \<open>
  C9, as stated, fails: on Windows a delete that asks for home removal succeeds. The
  account is deleted, the directory stays, a warning is logged and \<open>True\<close> is returned.
\<close>

theorem delete_windows_remove_home_counterexample:
  "fst (delete_user windows mock ''alice'' True with_alice) = True
   \<and> calls (snd (delete_user windows mock ''alice'' True with_alice)) = [WinDel ''alice'']
   \<and> dirs (world (snd (delete_user windows mock ''alice'' True with_alice))) = [''/home/alice'']
   \<and> logs (snd (delete_user windows mock ''alice'' True with_alice))
       = [(WARNING, ''Home directory removal not implemented for Windows in this script''),
          (INFO, ''Successfully deleted user '' @ quoted ''alice'')]"
  by code_simp

text \<open>
  C9, amended. On Windows, for every existing username whose \<open>NetUserDel\<close> succeeds, a
  delete that asks for home removal makes that one call, logs the warning that home
  removal is not implemented and then the success record, and returns \<open>True\<close>: no error is
  reported and nothing else is removed.
\<close>

theorem delete_windows_remove_home_warns:
  assumes "system self = ''win32''" and "user_exists self B u s"
    and "NetUserDel B u (world s) = (Done, w1)"
  shows "delete_user self B u True s
           = (True,
              s\<lparr>world := w1,
                calls := calls s @ [WinDel u],
                logs := logs s
                  @ [(WARNING, ''Home directory removal not implemented for Windows in this script''),
                     (INFO, ''Successfully deleted user '' @ quoted u)]\<rparr>)"
  using assms
  by (simp add: delete_user_def delete_user_windows_run [OF assms(3)] Let_def logger_def)

theorem delete_windows_remove_home_warns_witness:
  "delete_user windows mock ''alice'' True with_alice
     = (True,
        with_alice\<lparr>world := snd (NetUserDel mock ''alice'' (world with_alice)),
          calls := calls with_alice @ [WinDel ''alice''],
          logs := logs with_alice
            @ [(WARNING, ''Home directory removal not implemented for Windows in this script''),
               (INFO, ''Successfully deleted user '' @ quoted ''alice'')]\<rparr>)"
proof -
  have a1: "system windows = ''win32''" by (simp add: windows_def)
  have a2: "user_exists windows mock ''alice'' with_alice" by code_simp
  have a3: "NetUserDel mock ''alice'' (world with_alice)
              = (Done, snd (NetUserDel mock ''alice'' (world with_alice)))"
    by code_simp
  show ?thesis
    using delete_windows_remove_home_warns [OF a1 a2 a3] by simp
qed

section \<open>Listing\<close>

lemma starts_with_iff: "starts_with p x \<longleftrightarrow> (\<exists>b. x = p @ b)"
  by (induction p x rule: starts_with.induct) auto

lemma str_in_iff: "str_in p x \<longleftrightarrow> (\<exists>a b. x = a @ p @ b)"
proof (induction x)
  case Nil
  then show ?case by auto
next
  case (Cons c x)
  show ?case
  proof
    assume "str_in p (c # x)"
    then consider "starts_with p (c # x)" | "str_in p x" by auto
    then show "\<exists>a b. c # x = a @ p @ b"
    proof cases
      case 1
      then obtain b where "c # x = p @ b" using starts_with_iff by blast
      then have "c # x = [] @ p @ b" by simp
      then show ?thesis by blast
    next
      case 2
      then obtain a b where "x = a @ p @ b" using Cons.IH by blast
      then have "c # x = (c # a) @ p @ b" by simp
      then show ?thesis by blast
    qed
  next
    assume "\<exists>a b. c # x = a @ p @ b"
    then obtain a b where ab: "c # x = a @ p @ b" by blast
    show "str_in p (c # x)"
    proof (cases a)
      case Nil
      then have "starts_with p (c # x)" using ab starts_with_iff by auto
      then show ?thesis by simp
    next
      case (Cons d a')
      then have "x = a' @ p @ b" using ab by simp
      then have "str_in p x" using Cons.IH by blast
      then show ?thesis by simp
    qed
  qed
qed

lemma filtered_out_iff: "filtered_out pattern name \<longleftrightarrow> \<not> contains_ci pattern name"
proof (cases pattern)
  case None
  then show ?thesis by (simp add: filtered_out_def contains_ci_def)
next
  case (Some p)
  show ?thesis
  proof (cases "p = []")
    case True
    have "\<exists>a b. lower name = a @ lower [] @ b"
      by (intro exI [of _ "[]"] exI [of _ "lower name"]) (simp add: lower_def)
    then show ?thesis using Some True by (simp add: filtered_out_def contains_ci_def)
  next
    case False
    then show ?thesis using Some by (simp add: filtered_out_def contains_ci_def str_in_iff)
  qed
qed

lemma list_loop_filter:
  "list_loop pattern es users = users @ map row_of (filter (kept pattern) es)"
  by (induction es arbitrary: users) (simp_all add: Let_def kept_def)

lemma rows_of_list_users_linux:
  "rows_of (list_users_linux B pattern s)
     = sort (map row_of (filter (kept pattern) (getpwall B (world s))))"
  by (simp add: list_users_linux_def list_loop_filter Let_def)

lemma sorted_map_fst: "sorted (rs :: row list) \<Longrightarrow> sorted (map fst rs)"
  by (induction rs) (auto simp: less_eq_prod_def)

text \<open>
  C8, as stated, fails: the listing is not exactly the accounts whose name contains the
  pattern. \<open>daemon\<close> (uid 1) is in the password database and contains \<open>dae\<close>, and is not
  listed for that pattern, because line 311 drops every uid from 1 to 999.
\<close>

theorem list_pattern_only_counterexample:
  "\<lparr>pw_name = ''daemon'', pw_uid = 1, pw_gecos = ''daemon''\<rparr> \<in> set (getpwall mock (world office))
   \<and> contains_ci (Some ''dae'') ''daemon''
   \<and> ''daemon'' \<notin> set (map fst (rows_of (list_users_linux mock (Some ''dae'') office)))"
proof -
  have a: "\<lparr>pw_name = ''daemon'', pw_uid = 1, pw_gecos = ''daemon''\<rparr>
             \<in> set (getpwall mock (world office))"
    by code_simp
  have "\<not> filtered_out (Some ''dae'') ''daemon''" by code_simp
  then have b: "contains_ci (Some ''dae'') ''daemon''" by (simp add: filtered_out_iff)
  have c: "''daemon'' \<notin> set (map fst (rows_of (list_users_linux mock (Some ''dae'') office)))"
    by code_simp
  show ?thesis using a b c by blast
qed

text \<open>
  C8, amended. For every pattern, the rows printed are exactly the rows of the accounts
  whose username contains the pattern as a substring, compared case-insensitively, and
  whose uid is at least 1000 or is 0; and they are printed in ascending order of username.
\<close>

theorem list_users_linux_filtered_sorted:
  "set (rows_of (list_users_linux B pattern s))
     = row_of ` {e \<in> set (getpwall B (world s)).
                  contains_ci pattern (pw_name e) \<and> (pw_uid e \<ge> 1000 \<or> pw_uid e = 0)}
   \<and> sorted (map fst (rows_of (list_users_linux B pattern s)))"
proof
  have "{e \<in> set (getpwall B (world s)). kept pattern e}
          = {e \<in> set (getpwall B (world s)).
               contains_ci pattern (pw_name e) \<and> (pw_uid e \<ge> 1000 \<or> pw_uid e = 0)}"
    by (auto simp: kept_def filtered_out_iff)
  then show "set (rows_of (list_users_linux B pattern s))
     = row_of ` {e \<in> set (getpwall B (world s)).
                  contains_ci pattern (pw_name e) \<and> (pw_uid e \<ge> 1000 \<or> pw_uid e = 0)}"
    by (simp add: rows_of_list_users_linux)
  show "sorted (map fst (rows_of (list_users_linux B pattern s)))"
    unfolding rows_of_list_users_linux by (rule sorted_map_fst) simp
qed

lemma run_list_adm:
  "rows_of (list_users_linux mock (Some ''ADM'') office)
     = [(''Admin'', 1000, ''Site admin''), (''badmin'', 1001, ''No description'')]"
  by code_simp

theorem list_users_linux_filtered_sorted_witness:
  "rows_of (list_users_linux mock (Some ''ADM'') office)
     = [(''Admin'', 1000, ''Site admin''), (''badmin'', 1001, ''No description'')]
   \<and> set (rows_of (list_users_linux mock (Some ''ADM'') office))
     = row_of ` {e \<in> set (getpwall mock (world office)).
                  contains_ci (Some ''ADM'') (pw_name e) \<and> (pw_uid e \<ge> 1000 \<or> pw_uid e = 0)}
   \<and> sorted (map fst (rows_of (list_users_linux mock (Some ''ADM'') office)))"
  using list_users_linux_filtered_sorted [of mock "Some ''ADM''" office] run_list_adm
  by blast

text \<open>
  C10. On POSIX, for every pattern and every entry of the password database, the entry's
  row is listed if and only if its name is not passed over by the pattern test and its uid
  is at least 1000 or exactly 0. In particular no listed row has a uid from 1 to 999, and
  an entry with uid 0 (root) is listed whenever its name passes the pattern test.
\<close>

theorem list_users_linux_uid_rule:
  "(e \<in> set (getpwall B (world s)) \<longrightarrow>
      (row_of e \<in> set (rows_of (list_users_linux B pattern s))
         \<longleftrightarrow> \<not> filtered_out pattern (pw_name e) \<and> (pw_uid e \<ge> 1000 \<or> pw_uid e = 0)))
   \<and> (\<forall>r \<in> set (rows_of (list_users_linux B pattern s)).
         \<not> (1 \<le> fst (snd r) \<and> fst (snd r) \<le> 999))"
proof (intro conjI impI ballI)
  assume e: "e \<in> set (getpwall B (world s))"
  show "row_of e \<in> set (rows_of (list_users_linux B pattern s))
         \<longleftrightarrow> \<not> filtered_out pattern (pw_name e) \<and> (pw_uid e \<ge> 1000 \<or> pw_uid e = 0)"
  proof
    assume "row_of e \<in> set (rows_of (list_users_linux B pattern s))"
    then obtain e' where e': "e' \<in> set (getpwall B (world s))" "kept pattern e'"
        "row_of e' = row_of e"
      by (auto simp: rows_of_list_users_linux)
    from e'(3) have "pw_name e' = pw_name e" "pw_uid e' = pw_uid e"
      by (simp_all add: row_of_def)
    with e'(2) show "\<not> filtered_out pattern (pw_name e) \<and> (pw_uid e \<ge> 1000 \<or> pw_uid e = 0)"
      by (simp add: kept_def)
  next
    assume "\<not> filtered_out pattern (pw_name e) \<and> (pw_uid e \<ge> 1000 \<or> pw_uid e = 0)"
    then have "kept pattern e" by (simp add: kept_def)
    with e show "row_of e \<in> set (rows_of (list_users_linux B pattern s))"
      by (auto simp: rows_of_list_users_linux)
  qed
next
  fix r assume "r \<in> set (rows_of (list_users_linux B pattern s))"
  then obtain e where "kept pattern e" "r = row_of e"
    by (auto simp: rows_of_list_users_linux)
  then show "\<not> (1 \<le> fst (snd r) \<and> fst (snd r) \<le> 999)"
    by (auto simp: kept_def row_of_def)
qed

theorem list_users_linux_uid_rule_witness:
  "\<lparr>pw_name = ''root'', pw_uid = 0, pw_gecos = ''root''\<rparr> \<in> set (getpwall mock (world office))
   \<and> row_of \<lparr>pw_name = ''root'', pw_uid = 0, pw_gecos = ''root''\<rparr>
        \<in> set (rows_of (list_users_linux mock (Some ''OO'') office))
   \<and> \<lparr>pw_name = ''sysadm'', pw_uid = 999, pw_gecos = ''Operator''\<rparr>
        \<in> set (getpwall mock (world office))
   \<and> row_of \<lparr>pw_name = ''sysadm'', pw_uid = 999, pw_gecos = ''Operator''\<rparr>
        \<notin> set (rows_of (list_users_linux mock (Some ''adm'') office))"
proof -
  let ?root = "\<lparr>pw_name = ''root'', pw_uid = 0, pw_gecos = ''root''\<rparr>"
  let ?op = "\<lparr>pw_name = ''sysadm'', pw_uid = 999, pw_gecos = ''Operator''\<rparr>"
  have a: "?root \<in> set (getpwall mock (world office))" by code_simp
  have b: "?op \<in> set (getpwall mock (world office))" by code_simp
  have c: "\<not> filtered_out (Some ''OO'') (pw_name ?root)" by code_simp
  show ?thesis
    using a b c
      list_users_linux_uid_rule [of ?root mock office "Some ''OO''"]
      list_users_linux_uid_rule [of ?op mock office "Some ''adm''"]
    by simp
qed

end
